theory Spec2Isabelle
  imports Main "HOL-Library.Multiset"
begin

section \<open>SpellBound: the letter-placement puzzle of App.tsx\<close>

text \<open>
  The component \<open>App\<close> keeps three pieces of React state: \<open>gameState\<close>, \<open>feedback\<close> and
  \<open>selectedChoiceId\<close>. Every handler of the component is modelled as a function from the
  state before the event to the state after it. JavaScript values that may be
  \<open>undefined\<close> or \<open>null\<close> are options; a JavaScript string is a \<open>string\<close>, one list
  element per code unit; slot indices are the JavaScript numbers of \<open>missingIndices\<close>,
  modelled as integers.
\<close>

subsection \<open>JavaScript primitives used by the handlers\<close>

text \<open>A string is truthy unless it is empty; \<open>undefined\<close> and \<open>null\<close> are falsy.\<close>

definition truthy :: "string option \<Rightarrow> bool" where
  "truthy v = (case v of None \<Rightarrow> False | Some s \<Rightarrow> s \<noteq> [])"

text \<open>\<open>word[i]\<close> on a string: the one-character string at \<open>i\<close>, \<open>undefined\<close> out of range.\<close>

definition charAt :: "string \<Rightarrow> int \<Rightarrow> string option" where
  "charAt w i = (if 0 \<le> i \<and> i < int (length w) then Some [w ! nat i] else None)"

text \<open>\<open>arr[i]\<close> on an array: the element at \<open>i\<close>, \<open>undefined\<close> out of range.\<close>

definition elemAt :: "'a list \<Rightarrow> nat \<Rightarrow> 'a option" where
  "elemAt xs i = (if i < length xs then Some (xs ! i) else None)"

text \<open>\<open>String.prototype.toUpperCase\<close>, on the ASCII range (where it preserves length).\<close>

definition upperChar :: "char \<Rightarrow> char" where
  "upperChar c =
     (case map_of (zip ''abcdefghijklmnopqrstuvwxyz'' ''ABCDEFGHIJKLMNOPQRSTUVWXYZ'') c of
        Some u \<Rightarrow> u
      | None \<Rightarrow> c)"

definition toUpperCase :: "string \<Rightarrow> string" where
  "toUpperCase s = map upperChar s"

text \<open>The decimal rendering of a non-negative integer inside a template literal.\<close>

definition digit :: "nat \<Rightarrow> char" where
  "digit d = ''0123456789'' ! d"

function showNat :: "nat \<Rightarrow> string" where
  "showNat n = (if n < 10 then [digit n] else showNat (n div 10) @ [digit (n mod 10)])"
  by pat_completeness auto
termination
  by (relation "measure id") auto

declare showNat.simps [simp del]

subsection \<open>types.ts\<close>

datatype Status = Idle | Loading | Playing | Success | Error

datatype Feedback = FbNone | Correct | Incorrect

record PuzzleData =
  word :: string
  missingIndices :: "int list"
  hint :: string

text \<open>
  \<open>Choice.char\<close> is declared a string; at run time it holds whatever \<open>puzzle.word[i]\<close> or
  \<open>ALPHABET[k]\<close> evaluated to, which is \<open>undefined\<close> out of range.
\<close>

record Choice =
  id' :: string
  char' :: "string option"

record GameState =
  status :: Status
  puzzle :: "PuzzleData option"
  imageUrl :: "string option"
  userAnswers :: "int \<rightharpoonup> string"
  choices :: "Choice list"
  errorMessage :: "string option"

record App =
  gameState :: GameState
  feedback :: Feedback
  selectedChoiceId :: "string option"

definition initialApp :: App where
  "initialApp =
     \<lparr> gameState = \<lparr> status = Idle, puzzle = None, imageUrl = None,
                     userAnswers = Map.empty, choices = [], errorMessage = None \<rparr>,
       feedback = FbNone, selectedChoiceId = None \<rparr>"

subsection \<open>App.tsx: placement and removal\<close>

text \<open>
  \<open>placeLetter\<close> copies \<open>userAnswers\<close>, deletes every key whose value is \<open>choiceId\<close>,
  binds \<open>slotIndex\<close>, stores the copy, resets the feedback and clears the selection.
\<close>

definition placeLetter :: "int \<Rightarrow> string \<Rightarrow> App \<Rightarrow> App" where
  "placeLetter slotIndex choiceId app =
     (let answers = userAnswers (gameState app);
          cleared = (\<lambda>key. if answers key = Some choiceId then None else answers key);
          newAnswers = cleared(slotIndex \<mapsto> choiceId)
      in app\<lparr> gameState := (gameState app)\<lparr> userAnswers := newAnswers \<rparr>,
               feedback := FbNone,
               selectedChoiceId := None \<rparr>)"

definition removeLetter :: "int \<Rightarrow> App \<Rightarrow> App" where
  "removeLetter slotIndex app =
     (let newAnswers = (userAnswers (gameState app))(slotIndex := None)
      in app\<lparr> gameState := (gameState app)\<lparr> userAnswers := newAnswers \<rparr>,
               feedback := FbNone \<rparr>)"

text \<open>\<open>handleDrop\<close>: the dragged id is read from the event; an empty id is ignored.\<close>

definition handleDrop :: "string \<Rightarrow> int \<Rightarrow> App \<Rightarrow> App" where
  "handleDrop choiceId slotIndex app =
     (if truthy (Some choiceId) then placeLetter slotIndex choiceId app else app)"

definition handleSlotClick :: "int \<Rightarrow> App \<Rightarrow> App" where
  "handleSlotClick slotIndex app =
     (if truthy (selectedChoiceId app) then
        (case selectedChoiceId app of
           Some choiceId \<Rightarrow> placeLetter slotIndex choiceId app
         | None \<Rightarrow> app)
      else if truthy (userAnswers (gameState app) slotIndex) then removeLetter slotIndex app
      else app)"

text \<open>A finite sequence of \<open>placeLetter\<close>/\<open>removeLetter\<close> calls, run from a state.\<close>

datatype Op = Place int string | Remove int

fun applyOp :: "App \<Rightarrow> Op \<Rightarrow> App" where
  "applyOp app (Place slotIndex choiceId) = placeLetter slotIndex choiceId app"
| "applyOp app (Remove slotIndex) = removeLetter slotIndex app"

definition runOps :: "Op list \<Rightarrow> App \<Rightarrow> App" where
  "runOps ops app = foldl applyOp app ops"

text \<open>The slots bound to a tile id.\<close>

definition slotsOf :: "App \<Rightarrow> string \<Rightarrow> int set" where
  "slotsOf app tileId = {slot. userAnswers (gameState app) slot = Some tileId}"

text \<open>The invariant of \<open>userAnswers\<close>: finitely many slots, no tile id in two of them.\<close>

definition oneSlotPerTile :: "(int \<rightharpoonup> string) \<Rightarrow> bool" where
  "oneSlotPerTile m = (finite (dom m) \<and> inj_on m (dom m))"

subsection \<open>App.tsx: checkAnswer\<close>

text \<open>\<open>missingIndices.every(idx => userAnswers[idx])\<close>: every slot holds a truthy id.\<close>

definition allFilled :: "GameState \<Rightarrow> PuzzleData \<Rightarrow> bool" where
  "allFilled gs p = list_all (\<lambda>idx. truthy (userAnswers gs idx)) (missingIndices p)"

text \<open>
  \<open>choices.find(c => c.id === choiceId)\<close> with \<open>choiceId = userAnswers[index]\<close>: the first
  tile of the pool with that id; \<open>undefined\<close> when the slot is unbound or no tile has the id.
\<close>

definition boundChoice :: "GameState \<Rightarrow> int \<Rightarrow> Choice option" where
  "boundChoice gs index =
     (case userAnswers gs index of
        None \<Rightarrow> None
      | Some choiceId \<Rightarrow> find (\<lambda>c. id' c = choiceId) (choices gs))"

text \<open>\<open>choice?.char\<close>: \<open>undefined\<close> when there is no choice.\<close>

definition boundChar :: "GameState \<Rightarrow> int \<Rightarrow> string option" where
  "boundChar gs index = (case boundChoice gs index of None \<Rightarrow> None | Some c \<Rightarrow> char' c)"

text \<open>\<open>missingIndices.every(index => choice?.char === word[index])\<close>: strict equality.\<close>

definition isCorrect :: "GameState \<Rightarrow> PuzzleData \<Rightarrow> bool" where
  "isCorrect gs p =
     list_all (\<lambda>index. boundChar gs index = charAt (word p) index) (missingIndices p)"

definition checkAnswer :: "App \<Rightarrow> App" where
  "checkAnswer app =
     (case puzzle (gameState app) of
        None \<Rightarrow> app
      | Some p \<Rightarrow>
          if \<not> allFilled (gameState app) p then app\<lparr> feedback := Incorrect \<rparr>
          else if isCorrect (gameState app) p then
            app\<lparr> feedback := Correct,
                 gameState := (gameState app)\<lparr> status := Success \<rparr> \<rparr>
          else app\<lparr> feedback := Incorrect \<rparr>)"

text \<open>
  The comparison as the specification words it, for comparison with \<open>isCorrect\<close>: both
  letters are brought to upper case before they are compared.
\<close>

definition spec_normalizedCorrect :: "GameState \<Rightarrow> PuzzleData \<Rightarrow> bool" where
  "spec_normalizedCorrect gs p =
     list_all (\<lambda>index. map_option toUpperCase (boundChar gs index) =
                        map_option toUpperCase (charAt (word p) index))
       (missingIndices p)"

subsection \<open>services/geminiService.ts\<close>

text \<open>
  What the request to the model came to: a response whose text parsed to a puzzle
  object, a response with no text, or an exception anywhere in the \<open>try\<close> block.
\<close>

datatype ApiOutcome = Parsed PuzzleData | EmptyText | Thrown

text \<open>The "validate indices" step applied to a parsed response.\<close>

definition validateResponse :: "PuzzleData \<Rightarrow> PuzzleData" where
  "validateResponse data =
     (let w = toUpperCase (word data)
      in data\<lparr> word := w,
               missingIndices := filter (\<lambda>i. 0 \<le> i \<and> i < int (length w)) (missingIndices data) \<rparr>)"

text \<open>
  \<open>generatePuzzle\<close>. \<open>FALLBACK_PUZZLES\<close> is the constant of \<open>constants.ts\<close>, taken as a
  parameter, and \<open>k\<close> is the index \<open>Math.floor(Math.random() * FALLBACK_PUZZLES.length)\<close>;
  the result is \<open>undefined\<close> when the list has no element there.
\<close>

definition generatePuzzle ::
  "bool \<Rightarrow> ApiOutcome \<Rightarrow> PuzzleData list \<Rightarrow> nat \<Rightarrow> PuzzleData option" where
  "generatePuzzle hasApiKey outcome FALLBACK_PUZZLES k =
     (if \<not> hasApiKey then elemAt FALLBACK_PUZZLES k
      else case outcome of
             Parsed data \<Rightarrow> Some (validateResponse data)
           | EmptyText \<Rightarrow> elemAt FALLBACK_PUZZLES k
           | Thrown \<Rightarrow> elemAt FALLBACK_PUZZLES k)"

text \<open>What the image request came to, when there is an API key.\<close>

datatype ImagenOutcome = ImageBytes string | NoImageBytes | ImagenThrown

definition placeholderUrl :: "string \<Rightarrow> string" where
  "placeholderUrl w = ''https://picsum.photos/seed/'' @ w @ ''/500/500''"

definition generatePuzzleImage :: "bool \<Rightarrow> ImagenOutcome \<Rightarrow> string \<Rightarrow> string option" where
  "generatePuzzleImage hasApiKey outcome w =
     (if \<not> hasApiKey then Some (placeholderUrl w)
      else case outcome of
             ImageBytes b \<Rightarrow>
               (if b \<noteq> [] then Some (''data:image/jpeg;base64,'' @ b) else None)
           | NoImageBytes \<Rightarrow> None
           | ImagenThrown \<Rightarrow> Some (placeholderUrl w))"

subsection \<open>App.tsx: startNewRound\<close>

text \<open>The state updates before the puzzle is awaited.\<close>

definition startNewRound_reset :: "App \<Rightarrow> App" where
  "startNewRound_reset app =
     app\<lparr> gameState := (gameState app)\<lparr> status := Loading, userAnswers := Map.empty,
                                         puzzle := None, imageUrl := None, choices := [] \<rparr>,
          feedback := FbNone,
          selectedChoiceId := None \<rparr>"

definition correctLetters :: "PuzzleData \<Rightarrow> string option list" where
  "correctLetters p = map (\<lambda>i. charAt (word p) i) (missingIndices p)"

definition lettersNeeded :: "PuzzleData \<Rightarrow> int" where
  "lettersNeeded p = 6 - int (length (correctLetters p))"

text \<open>
  The \<open>for\<close> loop that pushes the distractors. \<open>ALPHABET\<close> is the constant of
  \<open>constants.ts\<close>, taken as a parameter; \<open>draw i\<close> is the index
  \<open>Math.floor(Math.random() * ALPHABET.length)\<close> drawn in iteration \<open>i\<close>.
\<close>

function pushDistractors ::
  "string list \<Rightarrow> (nat \<Rightarrow> nat) \<Rightarrow> int \<Rightarrow> nat \<Rightarrow> string option list \<Rightarrow> string option list" where
  "pushDistractors ALPHABET draw needed i distractors =
     (if int i < needed
      then pushDistractors ALPHABET draw needed (i + 1)
             (distractors @ [elemAt ALPHABET (draw i)])
      else distractors)"
  by pat_completeness auto
termination
  by (relation "measure (\<lambda>(ALPHABET, draw, needed, i, distractors). nat (needed - int i))") auto

declare pushDistractors.simps [simp del]

definition poolChars :: "string list \<Rightarrow> (nat \<Rightarrow> nat) \<Rightarrow> PuzzleData \<Rightarrow> string option list" where
  "poolChars ALPHABET draw p =
     correctLetters p @ pushDistractors ALPHABET draw (lettersNeeded p) 0 []"

text \<open>The id \<open>`choice-${i}-${Date.now()}`\<close>; \<open>now i\<close> is the clock read for element \<open>i\<close>.\<close>

definition templateId :: "nat \<Rightarrow> nat \<Rightarrow> string" where
  "templateId i t = ''choice-'' @ showNat i @ ''-'' @ showNat t"

definition labelChoices :: "(nat \<Rightarrow> nat) \<Rightarrow> string option list \<Rightarrow> Choice list" where
  "labelChoices now chars =
     map (\<lambda>(i, ch). \<lparr> id' = templateId i (now i), char' = ch \<rparr>) (enumerate 0 chars)"

text \<open>
  The pool: the labelled letters, then \<open>.sort(() => Math.random() - 0.5)\<close>. The order
  that sort produces is taken as a parameter \<open>shuffle\<close>.
\<close>

definition buildChoices ::
  "string list \<Rightarrow> (nat \<Rightarrow> nat) \<Rightarrow> (nat \<Rightarrow> nat) \<Rightarrow> (Choice list \<Rightarrow> Choice list) \<Rightarrow>
   PuzzleData \<Rightarrow> Choice list" where
  "buildChoices ALPHABET draw now shuffle p =
     shuffle (labelChoices now (poolChars ALPHABET draw p))"

text \<open>The rest of the \<open>try\<close> block, run once the puzzle has arrived.\<close>

definition startNewRound_loaded ::
  "string list \<Rightarrow> (nat \<Rightarrow> nat) \<Rightarrow> (nat \<Rightarrow> nat) \<Rightarrow> (Choice list \<Rightarrow> Choice list) \<Rightarrow>
   PuzzleData \<Rightarrow> App \<Rightarrow> App" where
  "startNewRound_loaded ALPHABET draw now shuffle p app =
     (let newChoices = buildChoices ALPHABET draw now shuffle p;
          gs = (gameState app)\<lparr> puzzle := Some p, choices := newChoices,
                                 userAnswers := Map.empty \<rparr>
      in app\<lparr> gameState := gs\<lparr> status := Playing \<rparr> \<rparr>)"

text \<open>The \<open>catch\<close> block.\<close>

definition startNewRound_failed :: "App \<Rightarrow> App" where
  "startNewRound_failed app =
     app\<lparr> gameState := (gameState app)\<lparr> status := Error,
                 errorMessage := Some ''Oops! Something went wrong.'' \<rparr> \<rparr>"

text \<open>
  \<open>startNewRound\<close>, given what \<open>await generatePuzzle(difficulty)\<close> evaluated to. Nothing
  in the \<open>try\<close> block throws on a puzzle object; on \<open>undefined\<close> the read of
  \<open>puzzle.missingIndices\<close> throws and the \<open>catch\<close> block runs.
\<close>

definition startNewRound ::
  "string list \<Rightarrow> (nat \<Rightarrow> nat) \<Rightarrow> (nat \<Rightarrow> nat) \<Rightarrow> (Choice list \<Rightarrow> Choice list) \<Rightarrow>
   PuzzleData option \<Rightarrow> App \<Rightarrow> App" where
  "startNewRound ALPHABET draw now shuffle result app =
     (case result of
        Some p \<Rightarrow> startNewRound_loaded ALPHABET draw now shuffle p (startNewRound_reset app)
      | None \<Rightarrow> startNewRound_failed (startNewRound_reset app))"

text \<open>
  The callback of \<open>generatePuzzleImage(puzzle.word).then(...)\<close>, run when the image
  request of some round resolves with \<open>url\<close>.
\<close>

definition imageResolved :: "string option \<Rightarrow> App \<Rightarrow> App" where
  "imageResolved url app =
     (if truthy url then app\<lparr> gameState := (gameState app)\<lparr> imageUrl := url \<rparr> \<rparr> else app)"

text \<open>
  The contract of the puzzle source as the specification words it: a non-empty word and
  a non-empty set of missing positions, each a valid index into the word.
\<close>

definition spec_contract :: "PuzzleData \<Rightarrow> bool" where
  "spec_contract p =
     (word p \<noteq> [] \<and> missingIndices p \<noteq> [] \<and>
      list_all (\<lambda>i. 0 \<le> i \<and> i < int (length (word p))) (missingIndices p))"

subsection \<open>Example round\<close>

text \<open>
  The word \<open>CAT\<close> with the letter at index 1 hidden, and a pool holding the correct tile
  \<open>t1\<close>, a distractor \<open>t2\<close> and a lower-case tile \<open>t3\<close>.
\<close>

definition catPuzzle :: PuzzleData where
  "catPuzzle = \<lparr> word = ''CAT'', missingIndices = [1], hint = ''A pet that purrs'' \<rparr>"

definition catChoices :: "Choice list" where
  "catChoices = [\<lparr> id' = ''t1'', char' = Some ''A'' \<rparr>, \<lparr> id' = ''t2'', char' = Some ''X'' \<rparr>,
                 \<lparr> id' = ''t3'', char' = Some ''a'' \<rparr>]"

definition catRound :: "(int \<rightharpoonup> string) \<Rightarrow> App" where
  "catRound answers =
     \<lparr> gameState = \<lparr> status = Playing, puzzle = Some catPuzzle, imageUrl = None,
                     userAnswers = answers, choices = catChoices, errorMessage = None \<rparr>,
       feedback = FbNone, selectedChoiceId = None \<rparr>"

text \<open>
  Inputs for the examples: a three-letter alphabet, draws that cycle through it, a clock
  that does not advance during the labelling, and (where a shuffle is needed) list
  reversal; a word with seven hidden letters, a second round, and an API response whose
  only index lies outside its word.
\<close>

definition exampleAlphabet :: "string list" where
  "exampleAlphabet = [''X'', ''Y'', ''Z'']"

definition exampleDraw :: "nat \<Rightarrow> nat" where
  "exampleDraw i = i mod 3"

definition exampleNow :: "nat \<Rightarrow> nat" where
  "exampleNow i = 1700000000000"

definition elephantPuzzle :: PuzzleData where
  "elephantPuzzle =
     \<lparr> word = ''ELEPHANT'', missingIndices = [0, 1, 2, 3, 4, 5, 6], hint = ''It has a trunk'' \<rparr>"

definition dogPuzzle :: PuzzleData where
  "dogPuzzle = \<lparr> word = ''DOG'', missingIndices = [0], hint = ''It barks'' \<rparr>"

definition badResponse :: PuzzleData where
  "badResponse = \<lparr> word = ''cat'', missingIndices = [7], hint = ''A pet that purrs'' \<rparr>"



section \<open>Properties\<close>

subsection \<open>Assignment invariant\<close>

lemma oneSlotPerTile_empty: "oneSlotPerTile Map.empty"
  by (simp add: oneSlotPerTile_def)

lemma oneSlotPerTile_place:
  assumes "oneSlotPerTile m"
  shows "oneSlotPerTile ((\<lambda>key. if m key = Some c then None else m key)(s \<mapsto> c))"
proof -
  let ?cl = "\<lambda>key. if m key = Some c then None else m key"
  have fin: "finite (dom m)" and inj: "inj_on m (dom m)"
    using assms by (simp_all add: oneSlotPerTile_def)
  have "dom (?cl(s \<mapsto> c)) \<subseteq> insert s (dom m)"
    by (auto split: if_splits)
  then have "finite (dom (?cl(s \<mapsto> c)))"
    using fin by (meson finite_insert finite_subset)
  moreover have "inj_on (?cl(s \<mapsto> c)) (dom (?cl(s \<mapsto> c)))"
  proof (rule inj_onI)
    fix x y
    assume x: "x \<in> dom (?cl(s \<mapsto> c))" and y: "y \<in> dom (?cl(s \<mapsto> c))"
      and eq: "(?cl(s \<mapsto> c)) x = (?cl(s \<mapsto> c)) y"
    show "x = y"
    proof (cases "x = s")
      case True
      then show ?thesis using eq y by (auto split: if_splits)
    next
      case xs: False
      show ?thesis
      proof (cases "y = s")
        case True
        then show ?thesis using eq x by (auto split: if_splits)
      next
        case False
        then have "m x = m y" "x \<in> dom m" "y \<in> dom m"
          using xs eq x y by (auto split: if_splits)
        then show ?thesis using inj by (simp add: inj_on_def)
      qed
    qed
  qed
  ultimately show ?thesis by (simp add: oneSlotPerTile_def)
qed

lemma oneSlotPerTile_remove:
  assumes "oneSlotPerTile m"
  shows "oneSlotPerTile (m(s := None))"
proof -
  have "inj_on (m(s := None)) (dom m - {s})"
    using assms unfolding oneSlotPerTile_def inj_on_def by auto
  then show ?thesis
    using assms by (simp add: oneSlotPerTile_def)
qed

lemma oneSlotPerTile_applyOp:
  "oneSlotPerTile (userAnswers (gameState app)) \<Longrightarrow>
   oneSlotPerTile (userAnswers (gameState (applyOp app op)))"
  by (cases op)
     (simp_all add: placeLetter_def removeLetter_def Let_def
        oneSlotPerTile_place oneSlotPerTile_remove)

lemma oneSlotPerTile_runOps:
  "oneSlotPerTile (userAnswers (gameState app)) \<Longrightarrow>
   oneSlotPerTile (userAnswers (gameState (runOps ops app)))"
  unfolding runOps_def
  by (induction ops arbitrary: app) (simp_all add: oneSlotPerTile_applyOp)

lemma oneSlotPerTile_card:
  assumes "oneSlotPerTile m"
  shows "finite {slot. m slot = Some t} \<and> card {slot. m slot = Some t} \<le> 1"
proof -
  have sub: "{slot. m slot = Some t} \<subseteq> dom m" by auto
  then have fin: "finite {slot. m slot = Some t}"
    using assms by (auto simp: oneSlotPerTile_def intro: finite_subset)
  have "\<And>x y. m x = Some t \<Longrightarrow> m y = Some t \<Longrightarrow> x = y"
    using assms unfolding oneSlotPerTile_def inj_on_def by (metis domI)
  then have "card {slot. m slot = Some t} \<le> 1"
    using fin by (auto simp: card_le_Suc0_iff_eq)
  with fin show ?thesis by simp
qed

text \<open>
  C1. After any finite sequence of \<open>placeLetter\<close>/\<open>removeLetter\<close> calls run from the
  initial state (empty \<open>userAnswers\<close>), the set of slots bound to any one tile id is
  finite and has at most one element; and \<open>placeLetter\<close> itself establishes this: the
  assignment it stores is the old one with every slot bound to the tile id deleted,
  then the new slot bound.
\<close>

theorem single_slot_per_tile:
  "finite (slotsOf (runOps ops initialApp) tileId) \<and>
   card (slotsOf (runOps ops initialApp) tileId) \<le> 1 \<and>
   userAnswers (gameState (placeLetter slot tileId app)) =
     (\<lambda>key. if userAnswers (gameState app) key = Some tileId then None
            else userAnswers (gameState app) key)(slot \<mapsto> tileId) \<and>
   slotsOf (placeLetter slot tileId app) tileId = {slot}"
proof -
  have "oneSlotPerTile (userAnswers (gameState (runOps ops initialApp)))"
    by (rule oneSlotPerTile_runOps) (simp add: initialApp_def oneSlotPerTile_empty)
  then have a: "finite (slotsOf (runOps ops initialApp) tileId) \<and>
      card (slotsOf (runOps ops initialApp) tileId) \<le> 1"
    unfolding slotsOf_def by (rule oneSlotPerTile_card)
  have b: "userAnswers (gameState (placeLetter slot tileId app)) =
     (\<lambda>key. if userAnswers (gameState app) key = Some tileId then None
            else userAnswers (gameState app) key)(slot \<mapsto> tileId)"
    by (simp add: placeLetter_def Let_def)
  have c: "slotsOf (placeLetter slot tileId app) tileId = {slot}"
    unfolding slotsOf_def b by (auto split: if_splits)
  from a b c show ?thesis by simp
qed

theorem single_slot_per_tile_witness:
  "card (slotsOf (runOps [Place 1 ''t1'', Place 2 ''t1'', Remove 1, Place 1 ''t2'']
      initialApp) ''t1'') \<le> 1 \<and>
   userAnswers (gameState (runOps [Place 1 ''t1'', Place 2 ''t1''] initialApp)) 1 = None \<and>
   userAnswers (gameState (runOps [Place 1 ''t1'', Place 2 ''t1''] initialApp)) 2 = Some ''t1''"
  using single_slot_per_tile
    [of "[Place 1 ''t1'', Place 2 ''t1'', Remove 1, Place 1 ''t2'']" "''t1''"]
  by (simp add: runOps_def placeLetter_def removeLetter_def initialApp_def Let_def)

subsection \<open>Verifier\<close>

lemmas ex_defs = catRound_def catPuzzle_def catChoices_def
lemmas verify_defs = checkAnswer_def allFilled_def isCorrect_def truthy_def boundChar_def
  boundChoice_def charAt_def

lemma isCorrect_iff:
  "isCorrect gs p = (\<forall>index\<in>set (missingIndices p). boundChar gs index = charAt (word p) index)"
  by (simp add: isCorrect_def list_all_iff)

lemma allFilled_iff:
  "allFilled gs p = (\<forall>idx\<in>set (missingIndices p). truthy (userAnswers gs idx))"
  by (simp add: allFilled_def list_all_iff)

text \<open>
  C2, as stated, asks for a comparison that normalises case. \<open>checkAnswer\<close> compares with
  \<open>===\<close>: with the word \<open>CAT\<close> and the lower-case tile \<open>t3 = "a"\<close> bound to slot 1, the
  comparison after normalisation holds at every missing position, while \<open>checkAnswer\<close>
  finds the answer incorrect and the round stays in play.
\<close>

theorem checkAnswer_case_normalized_counterexample:
  "allFilled (gameState (catRound [1 \<mapsto> ''t3''])) catPuzzle \<and>
   spec_normalizedCorrect (gameState (catRound [1 \<mapsto> ''t3''])) catPuzzle \<and>
   \<not> isCorrect (gameState (catRound [1 \<mapsto> ''t3''])) catPuzzle \<and>
   status (gameState (checkAnswer (catRound [1 \<mapsto> ''t3'']))) = Playing \<and>
   feedback (checkAnswer (catRound [1 \<mapsto> ''t3''])) = Incorrect"
  by (simp add: spec_normalizedCorrect_def verify_defs ex_defs toUpperCase_def upperChar_def)

text \<open>
  C2, amended. When every missing position holds a tile id, \<open>checkAnswer\<close> takes the
  correct branch (feedback \<open>correct\<close>, status \<open>success\<close>) exactly when, at every missing
  position, the letter of the first pool tile with the bound id is strictly equal to the
  letter of the word at that position; otherwise it sets the feedback \<open>incorrect\<close>. No
  letter is normalised before the comparison.
\<close>

theorem checkAnswer_correct_iff:
  assumes "puzzle (gameState app) = Some p"
    and "allFilled (gameState app) p"
  shows "checkAnswer app =
           (if (\<forall>index\<in>set (missingIndices p).
                  \<exists>choiceId. userAnswers (gameState app) index = Some choiceId \<and>
                    (case find (\<lambda>c. id' c = choiceId) (choices (gameState app)) of
                       None \<Rightarrow> None
                     | Some c \<Rightarrow> char' c) = charAt (word p) index)
            then app\<lparr> feedback := Correct,
                      gameState := (gameState app)\<lparr> status := Success \<rparr> \<rparr>
            else app\<lparr> feedback := Incorrect \<rparr>)"
proof -
  have "isCorrect (gameState app) p =
         (\<forall>index\<in>set (missingIndices p).
              \<exists>choiceId. userAnswers (gameState app) index = Some choiceId \<and>
                (case find (\<lambda>c. id' c = choiceId) (choices (gameState app)) of
                   None \<Rightarrow> None | Some c \<Rightarrow> char' c) = charAt (word p) index)"
    unfolding isCorrect_iff
  proof (rule ball_cong[OF refl])
    fix index assume "index \<in> set (missingIndices p)"
    then obtain cid where "userAnswers (gameState app) index = Some cid"
      using assms(2) by (auto simp: allFilled_iff truthy_def split: option.splits)
    then show "(boundChar (gameState app) index = charAt (word p) index) =
       (\<exists>choiceId. userAnswers (gameState app) index = Some choiceId \<and>
                (case find (\<lambda>c. id' c = choiceId) (choices (gameState app)) of
                   None \<Rightarrow> None | Some c \<Rightarrow> char' c) = charAt (word p) index)"
      by (simp add: boundChar_def boundChoice_def)
  qed
  then show ?thesis
    using assms by (simp add: checkAnswer_def)
qed

theorem checkAnswer_correct_iff_witness:
  "checkAnswer (catRound [1 \<mapsto> ''t1'']) =
     (catRound [1 \<mapsto> ''t1''])\<lparr> feedback := Correct,
        gameState := (gameState (catRound [1 \<mapsto> ''t1'']))\<lparr> status := Success \<rparr> \<rparr> \<and>
   checkAnswer (catRound [1 \<mapsto> ''t2'']) = (catRound [1 \<mapsto> ''t2''])\<lparr> feedback := Incorrect \<rparr>"
  using checkAnswer_correct_iff [of "catRound [1 \<mapsto> ''t1'']" catPuzzle]
    checkAnswer_correct_iff [of "catRound [1 \<mapsto> ''t2'']" catPuzzle]
  by (simp add: ex_defs allFilled_def truthy_def charAt_def)

text \<open>
  C3, as stated, asks for an "incomplete" report distinct from the "wrong letter" one.
  \<open>checkAnswer\<close> sets the same feedback \<open>incorrect\<close> and leaves the same status for an
  empty assignment (incomplete) and for slot 1 bound to the distractor \<open>t2\<close> (complete,
  wrong letter).
\<close>

theorem checkAnswer_incomplete_same_report_counterexample:
  "\<not> allFilled (gameState (catRound Map.empty)) catPuzzle \<and>
   allFilled (gameState (catRound [1 \<mapsto> ''t2''])) catPuzzle \<and>
   \<not> isCorrect (gameState (catRound [1 \<mapsto> ''t2''])) catPuzzle \<and>
   feedback (checkAnswer (catRound Map.empty)) = Incorrect \<and>
   feedback (checkAnswer (catRound [1 \<mapsto> ''t2''])) = Incorrect \<and>
   status (gameState (checkAnswer (catRound Map.empty))) =
     status (gameState (checkAnswer (catRound [1 \<mapsto> ''t2''])))"
  by (simp add: verify_defs ex_defs)

text \<open>
  C3, amended. Whenever some missing position holds no tile id, whatever the other
  positions hold, \<open>checkAnswer\<close> finds the answer not complete, does not take the correct
  branch, leaves the status (and the rest of the game state) as it was, and sets the
  feedback \<open>incorrect\<close>, the same feedback as for a wrong letter.
\<close>

theorem checkAnswer_incomplete:
  assumes "puzzle (gameState app) = Some p"
    and "idx \<in> set (missingIndices p)"
    and "\<not> truthy (userAnswers (gameState app) idx)"
  shows "\<not> allFilled (gameState app) p \<and>
         checkAnswer app = app\<lparr> feedback := Incorrect \<rparr> \<and>
         feedback (checkAnswer app) \<noteq> Correct \<and>
         status (gameState (checkAnswer app)) = status (gameState app)"
proof -
  have "\<not> allFilled (gameState app) p"
    using assms(2,3) by (auto simp: allFilled_iff)
  then show ?thesis
    using assms(1) by (simp add: checkAnswer_def)
qed

theorem checkAnswer_incomplete_witness:
  "\<not> allFilled (gameState (catRound Map.empty)) catPuzzle \<and>
   checkAnswer (catRound Map.empty) = (catRound Map.empty)\<lparr> feedback := Incorrect \<rparr> \<and>
   status (gameState (checkAnswer (catRound Map.empty))) = Playing"
  using checkAnswer_incomplete [of "catRound Map.empty" catPuzzle 1]
  by (simp add: ex_defs truthy_def)

text \<open>
  C4. In status \<open>playing\<close> with every missing position filled: if the answer is correct,
  \<open>checkAnswer\<close> moves the status to \<open>success\<close>; if it is incorrect, the status stays
  \<open>playing\<close>, the feedback is \<open>incorrect\<close>, and the next \<open>placeLetter\<close> or
  \<open>removeLetter\<close> resets the feedback to \<open>none\<close>.
\<close>

theorem checkAnswer_transitions:
  assumes "status (gameState app) = Playing"
    and "puzzle (gameState app) = Some p"
    and "allFilled (gameState app) p"
  shows "(isCorrect (gameState app) p \<longrightarrow>
            status (gameState (checkAnswer app)) = Success \<and>
            feedback (checkAnswer app) = Correct) \<and>
         (\<not> isCorrect (gameState app) p \<longrightarrow>
            status (gameState (checkAnswer app)) = Playing \<and>
            feedback (checkAnswer app) = Incorrect \<and>
            feedback (placeLetter slot choiceId (checkAnswer app)) = FbNone \<and>
            feedback (removeLetter slot (checkAnswer app)) = FbNone)"
  using assms by (simp add: checkAnswer_def placeLetter_def removeLetter_def Let_def)

theorem checkAnswer_transitions_witness:
  "status (gameState (checkAnswer (catRound [1 \<mapsto> ''t1'']))) = Success \<and>
   status (gameState (checkAnswer (catRound [1 \<mapsto> ''t2'']))) = Playing \<and>
   feedback (checkAnswer (catRound [1 \<mapsto> ''t2''])) = Incorrect \<and>
   feedback (placeLetter 1 ''t1'' (checkAnswer (catRound [1 \<mapsto> ''t2'']))) = FbNone \<and>
   feedback (removeLetter 1 (checkAnswer (catRound [1 \<mapsto> ''t2'']))) = FbNone"
  using checkAnswer_transitions [of "catRound [1 \<mapsto> ''t1'']" catPuzzle 1 "''t1''"]
    checkAnswer_transitions [of "catRound [1 \<mapsto> ''t2'']" catPuzzle 1 "''t1''"]
  by (simp add: ex_defs allFilled_def isCorrect_def truthy_def boundChar_def boundChoice_def
      charAt_def)




subsection \<open>Slot clicks\<close>

text \<open>
  C10. A click on a slot: with a tile selected, the selected tile is placed into the slot
  whatever the slot held (the former occupant is no longer bound there, the selection is
  cleared), and nothing is removed; with no tile selected and the slot filled, the
  occupant is removed and the other slots keep their tiles; with no tile selected and the
  slot not filled, the state is unchanged. A bound slot becomes unbound by a click only
  when no tile is selected and the slot is filled.
\<close>

theorem handleSlotClick_cases:
  "(selectedChoiceId app = Some choiceId \<and> choiceId \<noteq> [] \<longrightarrow>
      handleSlotClick slot app = placeLetter slot choiceId app \<and>
      userAnswers (gameState (handleSlotClick slot app)) slot = Some choiceId \<and>
      selectedChoiceId (handleSlotClick slot app) = None \<and>
      (\<forall>other. other \<noteq> choiceId \<longrightarrow>
         slotsOf (handleSlotClick slot app) other = slotsOf app other - {slot})) \<and>
   (\<not> truthy (selectedChoiceId app) \<and> truthy (userAnswers (gameState app) slot) \<longrightarrow>
      handleSlotClick slot app = removeLetter slot app \<and>
      userAnswers (gameState (handleSlotClick slot app)) slot = None \<and>
      (\<forall>other. other \<noteq> slot \<longrightarrow>
         userAnswers (gameState (handleSlotClick slot app)) other =
         userAnswers (gameState app) other)) \<and>
   (\<not> truthy (selectedChoiceId app) \<and> \<not> truthy (userAnswers (gameState app) slot) \<longrightarrow>
      handleSlotClick slot app = app) \<and>
   (userAnswers (gameState app) slot \<noteq> None \<and>
    userAnswers (gameState (handleSlotClick slot app)) slot = None \<longrightarrow>
      \<not> truthy (selectedChoiceId app) \<and> truthy (userAnswers (gameState app) slot))"
proof -
  have p1: "selectedChoiceId app = Some choiceId \<and> choiceId \<noteq> [] \<longrightarrow>
      handleSlotClick slot app = placeLetter slot choiceId app \<and>
      userAnswers (gameState (handleSlotClick slot app)) slot = Some choiceId \<and>
      selectedChoiceId (handleSlotClick slot app) = None \<and>
      (\<forall>other. other \<noteq> choiceId \<longrightarrow>
         slotsOf (handleSlotClick slot app) other = slotsOf app other - {slot})"
    by (auto simp: handleSlotClick_def truthy_def placeLetter_def Let_def slotsOf_def)
  have p2: "\<not> truthy (selectedChoiceId app) \<and> truthy (userAnswers (gameState app) slot) \<longrightarrow>
      handleSlotClick slot app = removeLetter slot app \<and>
      userAnswers (gameState (handleSlotClick slot app)) slot = None \<and>
      (\<forall>other. other \<noteq> slot \<longrightarrow>
         userAnswers (gameState (handleSlotClick slot app)) other =
         userAnswers (gameState app) other)"
    by (simp add: handleSlotClick_def removeLetter_def Let_def)
  have p3: "\<not> truthy (selectedChoiceId app) \<and> \<not> truthy (userAnswers (gameState app) slot) \<longrightarrow>
      handleSlotClick slot app = app"
    by (simp add: handleSlotClick_def)
  have p4: "userAnswers (gameState app) slot \<noteq> None \<and>
    userAnswers (gameState (handleSlotClick slot app)) slot = None \<longrightarrow>
      \<not> truthy (selectedChoiceId app) \<and> truthy (userAnswers (gameState app) slot)"
    by (auto simp: handleSlotClick_def placeLetter_def Let_def truthy_def
        split: option.splits if_splits)
  from p1 p2 p3 p4 show ?thesis by blast
qed

theorem handleSlotClick_cases_witness:
  "handleSlotClick 1 ((catRound [1 \<mapsto> ''t2''])\<lparr> selectedChoiceId := Some ''t1'' \<rparr>) =
     placeLetter 1 ''t1'' ((catRound [1 \<mapsto> ''t2''])\<lparr> selectedChoiceId := Some ''t1'' \<rparr>) \<and>
   userAnswers (gameState
     (handleSlotClick 1 ((catRound [1 \<mapsto> ''t2''])\<lparr> selectedChoiceId := Some ''t1'' \<rparr>))) 1 =
     Some ''t1'' \<and>
   handleSlotClick 1 (catRound [1 \<mapsto> ''t2'']) = removeLetter 1 (catRound [1 \<mapsto> ''t2'']) \<and>
   userAnswers (gameState (handleSlotClick 1 (catRound [1 \<mapsto> ''t2'']))) 1 = None \<and>
   handleSlotClick 1 (catRound Map.empty) = catRound Map.empty"
  using handleSlotClick_cases
      [of "(catRound [1 \<mapsto> ''t2''])\<lparr> selectedChoiceId := Some ''t1'' \<rparr>" "''t1''" 1]
    handleSlotClick_cases [of "catRound [1 \<mapsto> ''t2'']" "''t1''" 1]
    handleSlotClick_cases [of "catRound Map.empty" "''t1''" 1]
  by (simp add: ex_defs truthy_def placeLetter_def removeLetter_def Let_def)


subsection \<open>Pool construction\<close>

lemma digit_inj: "d < 10 \<Longrightarrow> e < 10 \<Longrightarrow> digit d = digit e \<Longrightarrow> d = e"
proof -
  assume d: "d < 10" and e: "e < 10" and eq: "digit d = digit e"
  have "distinct ''0123456789''" by simp
  moreover have "d < length ''0123456789''" "e < length ''0123456789''"
    using d e by simp_all
  ultimately show "d = e"
    using eq unfolding digit_def by (simp only: nth_eq_iff_index_eq)
qed

lemma digit_not_dash: "d < 10 \<Longrightarrow> digit d \<noteq> CHR ''-''"
proof -
  assume "d < 10"
  then have "digit d \<in> set ''0123456789''"
    unfolding digit_def by (intro nth_mem) simp
  then show ?thesis by auto
qed

lemma showNat_not_Nil: "showNat n \<noteq> []"
  by (subst showNat.simps) simp

lemma showNat_no_dash: "CHR ''-'' \<notin> set (showNat n)"
proof (induction n rule: showNat.induct)
  case (1 n)
  show ?case
  proof (cases "n < 10")
    case True
    then show ?thesis
      using digit_not_dash [of n] by (subst showNat.simps) auto
  next
    case False
    then show ?thesis
      using "1.IH" digit_not_dash [of "n mod 10"] by (subst showNat.simps) auto
  qed
qed

lemma showNat_inj: "showNat n = showNat m \<Longrightarrow> n = m"
proof (induction n arbitrary: m rule: showNat.induct)
  case (1 n)
  show ?case
  proof (cases "n < 10")
    case n: True
    show ?thesis
    proof (cases "m < 10")
      case True
      then show ?thesis
        using n "1.prems" digit_inj [of n m]
        by (simp add: showNat.simps [of n] showNat.simps [of m])
    next
      case False
      then show ?thesis
        using n "1.prems" showNat_not_Nil [of "m div 10"]
        by (simp add: showNat.simps [of n] showNat.simps [of m])
    qed
  next
    case n: False
    show ?thesis
    proof (cases "m < 10")
      case True
      then show ?thesis
        using n "1.prems" showNat_not_Nil [of "n div 10"]
        by (simp add: showNat.simps [of n] showNat.simps [of m])
    next
      case False
      then have "showNat (n div 10) = showNat (m div 10)"
        and d: "digit (n mod 10) = digit (m mod 10)"
        using n "1.prems" by (simp_all add: showNat.simps [of n] showNat.simps [of m])
      then have "n div 10 = m div 10"
        using "1.IH" n by blast
      moreover have "n mod 10 = m mod 10"
        using d digit_inj [of "n mod 10" "m mod 10"] by simp
      ultimately show ?thesis
        by (metis div_mult_mod_eq)
    qed
  qed
qed

lemma append_sep_eq:
  "c \<notin> set xs \<Longrightarrow> c \<notin> set xs' \<Longrightarrow> xs @ c # ys = xs' @ c # ys' \<Longrightarrow> xs = xs'"
proof (induction xs arbitrary: xs')
  case Nil
  then show ?case by (cases xs') auto
next
  case (Cons x xs)
  then show ?case by (cases xs') auto
qed

lemma templateId_inj: "templateId i t = templateId j u \<Longrightarrow> i = j"
proof -
  assume "templateId i t = templateId j u"
  then have "showNat i @ CHR ''-'' # showNat t = showNat j @ CHR ''-'' # showNat u"
    by (simp add: templateId_def)
  then have "showNat i = showNat j"
    using append_sep_eq [OF showNat_no_dash showNat_no_dash] by blast
  then show "i = j" by (rule showNat_inj)
qed

lemma length_pushDistractors:
  "length (pushDistractors ALPHABET draw needed i ds) = length ds + nat (needed - int i)"
proof (induction ALPHABET draw needed i ds rule: pushDistractors.induct)
  case (1 ALPHABET draw needed i ds)
  show ?case
  proof (cases "int i < needed")
    case True
    then show ?thesis
      using "1.IH" by (subst pushDistractors.simps) (simp add: nat_diff_distrib')
  next
    case False
    then show ?thesis
      by (subst pushDistractors.simps) simp
  qed
qed

lemma length_poolChars:
  "length (poolChars ALPHABET draw p) = max 6 (length (missingIndices p))"
  by (simp add: poolChars_def length_pushDistractors lettersNeeded_def correctLetters_def)

lemma take_poolChars:
  "take (length (missingIndices p)) (poolChars ALPHABET draw p) = correctLetters p"
  by (simp add: poolChars_def correctLetters_def)

lemma labelChoices_eq:
  "labelChoices now chars =
     map (\<lambda>i. \<lparr> id' = templateId i (now i), char' = chars ! i \<rparr>) [0..<length chars]"
  by (rule nth_equalityI) (simp_all add: labelChoices_def nth_enumerate_eq)

lemma length_labelChoices: "length (labelChoices now chars) = length chars"
  by (simp add: labelChoices_eq)

lemma map_char_labelChoices: "map char' (labelChoices now chars) = chars"
  by (rule nth_equalityI) (simp_all add: labelChoices_eq)

lemma distinct_ids_labelChoices: "distinct (map id' (labelChoices now chars))"
proof -
  have "map id' (labelChoices now chars) = map (\<lambda>i. templateId i (now i)) [0..<length chars]"
    by (simp add: labelChoices_eq comp_def)
  moreover have "inj_on (\<lambda>i. templateId i (now i)) (set [0..<length chars])"
    by (rule inj_onI) (rule templateId_inj)
  ultimately show ?thesis
    by (simp add: distinct_map)
qed


lemma shuffled_pool:
  assumes "\<And>xs. mset (shuffle xs) = mset xs"
  shows "length (buildChoices ALPHABET draw now shuffle p) = max 6 (length (missingIndices p))"
    and "distinct (map id' (buildChoices ALPHABET draw now shuffle p))"
    and "mset (map char' (buildChoices ALPHABET draw now shuffle p)) =
         mset (poolChars ALPHABET draw p)"
proof -
  let ?xs = "labelChoices now (poolChars ALPHABET draw p)"
  have eq: "mset (buildChoices ALPHABET draw now shuffle p) = mset ?xs"
    using assms by (simp add: buildChoices_def)
  then have "length (buildChoices ALPHABET draw now shuffle p) = length ?xs"
    by (rule mset_eq_length)
  then show "length (buildChoices ALPHABET draw now shuffle p) = max 6 (length (missingIndices p))"
    by (simp add: length_labelChoices length_poolChars)
  have m: "mset (map id' (buildChoices ALPHABET draw now shuffle p)) = mset (map id' ?xs)"
    using eq by (metis mset_map)
  show "distinct (map id' (buildChoices ALPHABET draw now shuffle p))"
    using mset_eq_imp_distinct_iff [OF m] distinct_ids_labelChoices by simp
  have "mset (map char' (buildChoices ALPHABET draw now shuffle p)) = mset (map char' ?xs)"
    using eq by (metis mset_map)
  then show "mset (map char' (buildChoices ALPHABET draw now shuffle p)) =
         mset (poolChars ALPHABET draw p)"
    by (simp add: map_char_labelChoices)
qed

text \<open>
  C5. For a puzzle with at most 6 missing positions (6 is the pool size the code builds),
  whatever the alphabet, the draws and the clock, and for any shuffle that returns a
  permutation of its argument: the pool has exactly 6 tiles; for every missing position
  a tile carrying the letter of the word at that position is in the pool; the ids of the
  tiles are pairwise distinct; and before the shuffle the first tiles carry the letters
  of the missing positions, one per position, in the order of \<open>missingIndices\<close>.
\<close>

theorem buildChoices_pool:
  assumes "length (missingIndices p) \<le> 6"
    and "\<And>xs. mset (shuffle xs) = mset xs"
  shows "length (buildChoices ALPHABET draw now shuffle p) = 6 \<and>
         (\<forall>i\<in>set (missingIndices p).
            \<exists>c\<in>set (buildChoices ALPHABET draw now shuffle p). char' c = charAt (word p) i) \<and>
         distinct (map id' (buildChoices ALPHABET draw now shuffle p)) \<and>
         map char' (take (length (missingIndices p))
                      (labelChoices now (poolChars ALPHABET draw p))) =
           map (charAt (word p)) (missingIndices p)"
proof -
  let ?pool = "buildChoices ALPHABET draw now shuffle p"
  have len: "length ?pool = 6"
    using shuffled_pool(1) [of shuffle ALPHABET draw now p, OF assms(2)] assms(1) by simp
  have chars: "set (map char' ?pool) = set (poolChars ALPHABET draw p)"
    using shuffled_pool(3) [of shuffle ALPHABET draw now p, OF assms(2)] by (rule mset_eq_setD)
  have present: "\<forall>i\<in>set (missingIndices p). \<exists>c\<in>set ?pool. char' c = charAt (word p) i"
  proof
    fix i assume "i \<in> set (missingIndices p)"
    then have "charAt (word p) i \<in> set (poolChars ALPHABET draw p)"
      by (simp add: poolChars_def correctLetters_def)
    then have "charAt (word p) i \<in> char' ` set ?pool"
      using chars by simp
    then show "\<exists>c\<in>set ?pool. char' c = charAt (word p) i"
      by auto
  qed
  have first: "map char' (take (length (missingIndices p))
                      (labelChoices now (poolChars ALPHABET draw p))) =
           map (charAt (word p)) (missingIndices p)"
    using take_poolChars [of p ALPHABET draw]
    by (simp add: take_map [symmetric] map_char_labelChoices correctLetters_def)
  from len present shuffled_pool(2) [of shuffle ALPHABET draw now p, OF assms(2)] first show ?thesis
    by blast
qed

theorem buildChoices_pool_witness:
  "length (buildChoices exampleAlphabet exampleDraw exampleNow rev catPuzzle) = 6 \<and>
   (\<exists>c\<in>set (buildChoices exampleAlphabet exampleDraw exampleNow rev catPuzzle).
      char' c = Some ''A'') \<and>
   distinct (map id' (buildChoices exampleAlphabet exampleDraw exampleNow rev catPuzzle))"
  using buildChoices_pool [where p = catPuzzle and shuffle = rev and now = exampleNow
      and ALPHABET = exampleAlphabet and draw = exampleDraw]
  by (simp add: catPuzzle_def charAt_def)


lemmas pool_defs = buildChoices_def labelChoices_def poolChars_def correctLetters_def
  lettersNeeded_def pushDistractors.simps charAt_def elemAt_def
  exampleAlphabet_def exampleDraw_def exampleNow_def

lemma buildChoices_example_letters:
  "map char' (buildChoices exampleAlphabet exampleDraw exampleNow rev catPuzzle) =
     [Some ''Y'', Some ''X'', Some ''Z'', Some ''Y'', Some ''X'', Some ''A'']"
  by (simp add: pool_defs catPuzzle_def)

lemma buildChoices_example_ids:
  "map id' (buildChoices exampleAlphabet exampleDraw exampleNow rev catPuzzle) =
     [''choice-5-1700000000000'', ''choice-4-1700000000000'', ''choice-3-1700000000000'',
      ''choice-2-1700000000000'', ''choice-1-1700000000000'', ''choice-0-1700000000000'']"
  by (simp add: pool_defs catPuzzle_def templateId_def showNat.simps digit_def)

lemmas round_defs = startNewRound_def startNewRound_loaded_def startNewRound_reset_def
  startNewRound_failed_def

text \<open>
  C6, as stated, asks pool construction to fail when the missing positions outnumber the
  pool size. For \<open>ELEPHANT\<close> with seven hidden letters \<open>startNewRound\<close> reports no error:
  the round reaches \<open>playing\<close> with a pool of seven tiles.
\<close>

theorem startNewRound_configuration_error_counterexample:
  "6 < length (missingIndices elephantPuzzle) \<and>
   status (gameState (startNewRound exampleAlphabet exampleDraw exampleNow rev
                        (Some elephantPuzzle) initialApp)) = Playing \<and>
   errorMessage (gameState (startNewRound exampleAlphabet exampleDraw exampleNow rev
                        (Some elephantPuzzle) initialApp)) = None \<and>
   map char' (choices (gameState (startNewRound exampleAlphabet exampleDraw exampleNow rev
                        (Some elephantPuzzle) initialApp))) =
     [Some ''N'', Some ''A'', Some ''H'', Some ''P'', Some ''E'', Some ''L'', Some ''E'']"
  by (simp add: round_defs pool_defs elephantPuzzle_def initialApp_def Let_def)

text \<open>
  C6, amended. For a puzzle with more than 6 missing positions pool construction does
  not fail: the loop adds no distractor, the pool holds exactly one tile per missing
  position (as many tiles as positions) carrying the letters of those positions, and
  \<open>startNewRound\<close> stores the puzzle and that pool and moves to \<open>playing\<close>.
\<close>

theorem startNewRound_oversized_puzzle:
  assumes "6 < length (missingIndices p)"
    and "\<And>xs. mset (shuffle xs) = mset xs"
  shows "status (gameState (startNewRound ALPHABET draw now shuffle (Some p) app)) = Playing \<and>
         puzzle (gameState (startNewRound ALPHABET draw now shuffle (Some p) app)) = Some p \<and>
         choices (gameState (startNewRound ALPHABET draw now shuffle (Some p) app)) =
           buildChoices ALPHABET draw now shuffle p \<and>
         length (buildChoices ALPHABET draw now shuffle p) = length (missingIndices p) \<and>
         mset (map char' (buildChoices ALPHABET draw now shuffle p)) =
           mset (map (charAt (word p)) (missingIndices p))"
proof -
  have needed: "lettersNeeded p < 0"
    using assms(1) by (simp add: lettersNeeded_def correctLetters_def)
  then have "pushDistractors ALPHABET draw (lettersNeeded p) 0 [] = []"
    by (subst pushDistractors.simps) simp
  then have pc: "poolChars ALPHABET draw p = map (charAt (word p)) (missingIndices p)"
    by (simp add: poolChars_def correctLetters_def)
  have "length (buildChoices ALPHABET draw now shuffle p) = length (missingIndices p)"
    using shuffled_pool(1) [of shuffle ALPHABET draw now p, OF assms(2)] assms(1) by simp
  moreover have "mset (map char' (buildChoices ALPHABET draw now shuffle p)) =
           mset (map (charAt (word p)) (missingIndices p))"
    using shuffled_pool(3) [of shuffle ALPHABET draw now p, OF assms(2)] pc by simp
  ultimately show ?thesis
    by (simp add: round_defs Let_def)
qed

theorem startNewRound_oversized_puzzle_witness:
  "status (gameState (startNewRound exampleAlphabet exampleDraw exampleNow rev
                        (Some elephantPuzzle) initialApp)) = Playing \<and>
   length (buildChoices exampleAlphabet exampleDraw exampleNow rev elephantPuzzle) = 7"
  using startNewRound_oversized_puzzle [where p = elephantPuzzle and shuffle = rev
      and now = exampleNow and ALPHABET = exampleAlphabet and draw = exampleDraw
      and app = initialApp]
  by (simp add: elephantPuzzle_def)

subsection \<open>Illustration\<close>

text \<open>
  C7, as stated, asks that the result of the image request of a round be dropped once a
  newer round has started. The callback carries no round identity: after a round for
  \<open>CAT\<close> and then a round for \<open>DOG\<close>, the late result of the \<open>CAT\<close> request is stored
  as the illustration of the \<open>DOG\<close> round, whose field was empty.
\<close>

theorem imageResolved_stale_counterexample:
  "generatePuzzleImage True (ImageBytes ''Q0FU'') (word catPuzzle) =
     Some ''data:image/jpeg;base64,Q0FU'' \<and>
   imageUrl (gameState
     (startNewRound exampleAlphabet exampleDraw exampleNow rev (Some dogPuzzle)
        (startNewRound exampleAlphabet exampleDraw exampleNow rev (Some catPuzzle)
           initialApp))) = None \<and>
   puzzle (gameState
     (imageResolved (generatePuzzleImage True (ImageBytes ''Q0FU'') (word catPuzzle))
        (startNewRound exampleAlphabet exampleDraw exampleNow rev (Some dogPuzzle)
           (startNewRound exampleAlphabet exampleDraw exampleNow rev (Some catPuzzle)
              initialApp)))) = Some dogPuzzle \<and>
   imageUrl (gameState
     (imageResolved (generatePuzzleImage True (ImageBytes ''Q0FU'') (word catPuzzle))
        (startNewRound exampleAlphabet exampleDraw exampleNow rev (Some dogPuzzle)
           (startNewRound exampleAlphabet exampleDraw exampleNow rev (Some catPuzzle)
              initialApp)))) = Some ''data:image/jpeg;base64,Q0FU''"
  by (simp add: round_defs imageResolved_def generatePuzzleImage_def truthy_def Let_def)

text \<open>
  C7, amended. When an image request resolves with a non-empty URL, the URL is stored in
  the illustration field of the current game state, whichever round started the request;
  status, puzzle, assignment and pool are unchanged. A result that is \<open>null\<close> or empty
  changes nothing.
\<close>

theorem imageResolved_applies:
  "(truthy url \<longrightarrow>
      imageResolved url app = app\<lparr> gameState := (gameState app)\<lparr> imageUrl := url \<rparr> \<rparr> \<and>
      imageUrl (gameState (imageResolved url app)) = url \<and>
      status (gameState (imageResolved url app)) = status (gameState app) \<and>
      puzzle (gameState (imageResolved url app)) = puzzle (gameState app) \<and>
      userAnswers (gameState (imageResolved url app)) = userAnswers (gameState app) \<and>
      choices (gameState (imageResolved url app)) = choices (gameState app)) \<and>
   (\<not> truthy url \<longrightarrow> imageResolved url app = app)"
  by (simp add: imageResolved_def)

theorem imageResolved_applies_witness:
  "imageUrl (gameState (imageResolved (Some ''https://picsum.photos/seed/CAT/500/500'')
      (catRound Map.empty))) = Some ''https://picsum.photos/seed/CAT/500/500'' \<and>
   status (gameState (imageResolved (Some ''https://picsum.photos/seed/CAT/500/500'')
      (catRound Map.empty))) = Playing \<and>
   imageResolved None (catRound Map.empty) = catRound Map.empty"
  using imageResolved_applies [of "Some ''https://picsum.photos/seed/CAT/500/500''"
      "catRound Map.empty"]
    imageResolved_applies [of None "catRound Map.empty"]
  by (simp add: truthy_def catRound_def)

subsection \<open>Puzzle source\<close>

text \<open>
  C8, as stated, asks that a puzzle violating the contract of the puzzle source be
  rejected as an error. For an API response \<open>cat\<close> whose only index is 7,
  \<open>generatePuzzle\<close> returns \<open>CAT\<close> with no missing position, which violates the
  contract, and \<open>startNewRound\<close> proceeds to \<open>playing\<close> with that puzzle.
\<close>

theorem startNewRound_contract_counterexample:
  "generatePuzzle True (Parsed badResponse) [] 0 =
     Some \<lparr> word = ''CAT'', missingIndices = [], hint = ''A pet that purrs'' \<rparr> \<and>
   \<not> spec_contract \<lparr> word = ''CAT'', missingIndices = [], hint = ''A pet that purrs'' \<rparr> \<and>
   status (gameState (startNewRound exampleAlphabet exampleDraw exampleNow rev
     (generatePuzzle True (Parsed badResponse) [] 0) initialApp)) = Playing \<and>
   puzzle (gameState (startNewRound exampleAlphabet exampleDraw exampleNow rev
     (generatePuzzle True (Parsed badResponse) [] 0) initialApp)) =
     Some \<lparr> word = ''CAT'', missingIndices = [], hint = ''A pet that purrs'' \<rparr>"
  by (simp add: generatePuzzle_def validateResponse_def badResponse_def toUpperCase_def
      upperChar_def spec_contract_def round_defs Let_def)

text \<open>
  C8, amended. \<open>startNewRound\<close> does not validate the puzzle: for every puzzle object it
  is given it stores the puzzle and moves to \<open>playing\<close>; it moves to \<open>error\<close> only
  when no puzzle object arrives. \<open>generatePuzzle\<close> repairs an API response instead of
  rejecting it: the word is upper-cased and the indices outside the word are dropped, so
  every index it delivers is a valid index into the delivered word (the word or the index
  list may still be empty).
\<close>

theorem startNewRound_accepts_puzzle:
  "status (gameState (startNewRound ALPHABET draw now shuffle (Some p) app)) = Playing \<and>
   puzzle (gameState (startNewRound ALPHABET draw now shuffle (Some p) app)) = Some p \<and>
   status (gameState (startNewRound ALPHABET draw now shuffle None app)) = Error \<and>
   puzzle (gameState (startNewRound ALPHABET draw now shuffle None app)) = None \<and>
   generatePuzzle True (Parsed data) FALLBACK_PUZZLES k = Some (validateResponse data) \<and>
   word (validateResponse data) = toUpperCase (word data) \<and>
   (\<forall>i\<in>set (missingIndices (validateResponse data)).
      i \<in> set (missingIndices data) \<and> 0 \<le> i \<and> i < int (length (word (validateResponse data))))"
  by (simp add: round_defs generatePuzzle_def validateResponse_def Let_def)

theorem startNewRound_accepts_puzzle_witness:
  "status (gameState (startNewRound exampleAlphabet exampleDraw exampleNow rev
     (Some \<lparr> word = [], missingIndices = [], hint = [] \<rparr>) initialApp)) = Playing \<and>
   generatePuzzle True
     (Parsed \<lparr> word = ''cat'', missingIndices = [-1, 1, 7], hint = ''A pet that purrs'' \<rparr>) [] 0 =
     Some \<lparr> word = ''CAT'', missingIndices = [1], hint = ''A pet that purrs'' \<rparr>"
  using startNewRound_accepts_puzzle [where p = "\<lparr> word = [], missingIndices = [], hint = [] \<rparr>"
      and shuffle = rev and now = exampleNow and ALPHABET = exampleAlphabet
      and draw = exampleDraw and app = initialApp
      and data = "\<lparr> word = ''cat'', missingIndices = [-1, 1, 7], hint = ''A pet that purrs'' \<rparr>"
      and FALLBACK_PUZZLES = "[]" and k = 0]
  by (simp add: validateResponse_def toUpperCase_def upperChar_def)


end
